theory Spec2Isabelle
  imports Complex_Main "HOL-Library.AList"
begin

section \<open>The authenticating RPC gate (server\_interceptor.py)\<close>

subsection \<open>Data\<close>

text \<open>
  Python \<open>bytes\<close> are lists of 8-bit characters. A Python \<open>str\<close> is kept as its UTF-8
  bytes, so that \<open>str.encode()\<close> is the identity on the representation.
\<close>

type_synonym bytes = "char list"

datatype mdval = Str string | Bytes bytes

type_synonym metadata = "(string \<times> mdval) list"

definition PUBLIC_KEY_HEADER :: string where
  "PUBLIC_KEY_HEADER = ''public-key''"

definition AUTH_TOKEN_HEADER :: string where
  "AUTH_TOKEN_HEADER = ''auth-token''"

text \<open>
  The protobuf messages, with the fields the gate reads. \<open>ping_interval\<close> is a number of
  seconds that the gate hands on unchanged. \<open>OtherRequest\<close> stands for a request object
  of any type outside the four of the \<open>Request\<close> union: the gate has a branch for it.
\<close>

datatype Node = Node (node_id: int) (anonymous: bool)

datatype Task = Task (consumer: Node)

datatype TaskRes = TaskRes (task: Task)

datatype request =
    CreateNodeRequest (ping_interval: real)
  | DeleteNodeRequest (node: Node)
  | PullTaskInsRequest (node: Node)
  | PushTaskResRequest (task_res_list: "TaskRes list")
  | OtherRequest

datatype response =
    CreateNodeResponse (node: Node)
  | DeleteNodeResponse
  | PullTaskInsResponse bytes
  | PushTaskResResponse bytes

datatype status_code =
    OK | CANCELLED | UNKNOWN | INVALID_ARGUMENT | DEADLINE_EXCEEDED | NOT_FOUND
  | ALREADY_EXISTS | PERMISSION_DENIED | RESOURCE_EXHAUSTED | FAILED_PRECONDITION
  | ABORTED | OUT_OF_RANGE | UNIMPLEMENTED | INTERNAL | UNAVAILABLE | DATA_LOSS
  | UNAUTHENTICATED

text \<open>
  \<open>context.abort(code, details)\<close> raises and so ends the call: it is the error
  \<open>Abort code details\<close>. The other errors are the exceptions that leave the handler:
  \<open>IndexError\<close> from \<open>task_res_list[0]\<close>, \<open>AttributeError\<close> from reading \<open>.node\<close> of
  a response that has none, \<open>binascii_Error\<close> from the base64 decoder and \<open>ValueError\<close>
  from the public-key parser.
\<close>

datatype error =
    Abort status_code string
  | IndexError
  | AttributeError
  | binascii_Error
  | ValueError

datatype public_key = PublicKey bytes

datatype private_key = PrivateKey bytes

subsection \<open>The Key/State Store\<close>

text \<open>
  Modelled from the spec: the Key/State Store (\<open>flwr.server.superlink.state\<close> is not
  among the sources). It holds the trusted client public keys, the binding from public
  key to node id, and per node the lease (ping interval) it was last restored with.
  \<open>get_node_id\<close> fails with a not-found error when the key has no binding: that is
  \<open>None\<close>. \<open>store_node_id_client_public_key_pair\<close> establishes or overwrites the
  binding; \<open>restore_node\<close> marks the node live again with a refreshed lease.
\<close>

record State =
  client_public_keys :: "bytes set"
  node_ids :: "bytes \<rightharpoonup> int"
  leases :: "int \<rightharpoonup> real"

definition get_client_public_keys :: "State \<Rightarrow> bytes set" where
  "get_client_public_keys s = client_public_keys s"

definition get_node_id :: "State \<Rightarrow> bytes \<Rightarrow> int option" where
  "get_node_id s k = node_ids s k"

definition store_node_id_client_public_key_pair :: "bytes \<Rightarrow> int \<Rightarrow> State \<Rightarrow> State" where
  "store_node_id_client_public_key_pair k n s = s\<lparr>node_ids := (node_ids s)(k \<mapsto> n)\<rparr>"

definition restore_node :: "int \<Rightarrow> real \<Rightarrow> State \<Rightarrow> State" where
  "restore_node n p s = s\<lparr>leases := (leases s)(n \<mapsto> p)\<rparr>"

subsection \<open>Effects and collaborators\<close>

text \<open>
  Every call the gate makes on the store, on the gRPC context and on the underlying
  handler is recorded, in order, in \<open>effects\<close>; \<open>state\<close> is the store the interceptor
  shares with the underlying handler.
\<close>

datatype event =
    Get_client_public_keys
  | Get_node_id bytes
  | Send_initial_metadata "(string \<times> bytes) list"
  | Restore_node int real
  | Store_node_id_client_public_key_pair bytes int
  | Unary_unary request

record world =
  state :: State
  effects :: "event list"

definition emit :: "event \<Rightarrow> world \<Rightarrow> world" where
  "emit e w = w\<lparr>effects := effects w @ [e]\<rparr>"

text \<open>
  The library functions and the underlying handler are parameters. The base64 decoder
  and the public-key parser can raise (\<open>None\<close>). The underlying handler
  (\<open>message_handler.unary_unary\<close>) works on the same store and either returns a
  response or raises.
\<close>

record env =
  urlsafe_b64decode :: "bytes \<Rightarrow> bytes option"
  urlsafe_b64encode :: "bytes \<Rightarrow> bytes"
  bytes_to_public_key :: "bytes \<Rightarrow> public_key option"
  public_key_to_bytes :: "public_key \<Rightarrow> bytes"
  generate_shared_key :: "private_key \<Rightarrow> public_key \<Rightarrow> bytes"
  verify_hmac :: "bytes \<Rightarrow> bytes \<Rightarrow> bytes \<Rightarrow> bool"
  SerializeToString :: "request \<Rightarrow> bytes"
  unary_unary :: "request \<Rightarrow> State \<Rightarrow> (error + response) \<times> State"

record AuthenticateServerInterceptor =
  server_private_key :: private_key
  server_public_key :: public_key

subsection \<open>The handler\<close>

text \<open>
  \<open>_get_value_from_tuples\<close>: the value of the first tuple with the key, the empty
  string when there is none; a \<open>str\<close> is encoded.
\<close>

fun get_value_from_tuples :: "string \<Rightarrow> metadata \<Rightarrow> bytes" where
  "get_value_from_tuples key_string [] = ''''"
| "get_value_from_tuples key_string ((key, v) # tuples) =
     (if key = key_string then (case v of Str s \<Rightarrow> s | Bytes b \<Rightarrow> b)
      else get_value_from_tuples key_string tuples)"

text \<open>Forwarding to the underlying handler: \<open>message_handler.unary_unary(request, context)\<close>.\<close>

definition forward :: "env \<Rightarrow> request \<Rightarrow> world \<Rightarrow> (error + response) \<times> world" where
  "forward e request w =
     (let w' = emit (Unary_unary request) w;
          (r, s') = unary_unary e request (state w')
      in (r, w'\<lparr>state := s'\<rparr>))"

text \<open>
  \<open>request_node_id\<close>: the first result's consumer for a task push (an \<open>IndexError\<close> on
  an empty list), the request's own node otherwise.
\<close>

fun request_node_id :: "request \<Rightarrow> error + int" where
  "request_node_id (PushTaskResRequest []) = Inl IndexError"
| "request_node_id (PushTaskResRequest (r # rs)) = Inr (node_id (consumer (task r)))"
| "request_node_id (DeleteNodeRequest n) = Inr (node_id n)"
| "request_node_id (PullTaskInsRequest n) = Inr (node_id n)"
| "request_node_id _ = Inl AttributeError"

text \<open>
  \<open>isinstance(request, (DeleteNodeRequest, PullTaskInsRequest, PushTaskResRequest))\<close>.
\<close>

fun is_session_request :: "request \<Rightarrow> bool" where
  "is_session_request (DeleteNodeRequest n) = True"
| "is_session_request (PullTaskInsRequest n) = True"
| "is_session_request (PushTaskResRequest rs) = True"
| "is_session_request _ = False"

text \<open>
  \<open>_generic_method_handler\<close>, the body under the interceptor's lock. One call runs
  from \<open>w0\<close> to its result; the lock makes calls follow one another.
\<close>

definition generic_method_handler ::
  "env \<Rightarrow> AuthenticateServerInterceptor \<Rightarrow> request \<Rightarrow> metadata \<Rightarrow> world
     \<Rightarrow> (error + response) \<times> world" where
  "generic_method_handler e self request md w0 =
    (case urlsafe_b64decode e (get_value_from_tuples PUBLIC_KEY_HEADER md) of
       None \<Rightarrow> (Inl binascii_Error, w0)
     | Some client_public_key_bytes \<Rightarrow>
        let w1 = emit Get_client_public_keys w0;
            is_public_key_known =
              (client_public_key_bytes \<in> get_client_public_keys (state w1))
        in
        if \<not> is_public_key_known
        then (Inl (Abort UNAUTHENTICATED ''Access denied!''), w1)
        else
          (case request of
             CreateNodeRequest ping \<Rightarrow>
               let w2 = emit (Send_initial_metadata
                          [(PUBLIC_KEY_HEADER,
                            urlsafe_b64encode e (public_key_to_bytes e (server_public_key self)))])
                          w1;
                   w3 = emit (Get_node_id client_public_key_bytes) w2;
                   node_id_from_client_public_key = get_node_id (state w3) client_public_key_bytes
               in
               (case node_id_from_client_public_key of
                  Some n \<Rightarrow>
                    let w4 = (emit (Restore_node n ping) w3)
                               \<lparr>state := restore_node n ping (state w3)\<rparr>;
                        w5 = (emit (Store_node_id_client_public_key_pair
                                      client_public_key_bytes n) w4)
                               \<lparr>state := store_node_id_client_public_key_pair
                                            client_public_key_bytes n (state w4)\<rparr>
                    in (Inr (CreateNodeResponse (Node n False)), w5)
                | None \<Rightarrow>
                    (case forward e request w3 of
                       (Inl err, w4) \<Rightarrow> (Inl err, w4)
                     | (Inr resp, w4) \<Rightarrow>
                         (case resp of
                            CreateNodeResponse nd \<Rightarrow>
                              (Inr resp,
                               (emit (Store_node_id_client_public_key_pair
                                        client_public_key_bytes (node_id nd)) w4)
                                 \<lparr>state := store_node_id_client_public_key_pair
                                              client_public_key_bytes (node_id nd) (state w4)\<rparr>)
                          | _ \<Rightarrow> (Inl AttributeError, w4))))
           | _ \<Rightarrow>
               if is_session_request request then
               (case urlsafe_b64decode e (get_value_from_tuples AUTH_TOKEN_HEADER md) of
                  None \<Rightarrow> (Inl binascii_Error, w1)
                | Some hmac_value \<Rightarrow>
                    (case bytes_to_public_key e client_public_key_bytes of
                       None \<Rightarrow> (Inl ValueError, w1)
                     | Some client_public_key \<Rightarrow>
                         let shared_secret =
                               generate_shared_key e (server_private_key self) client_public_key;
                             verify =
                               verify_hmac e shared_secret (SerializeToString e request) hmac_value;
                             w2 = emit (Get_node_id client_public_key_bytes) w1;
                             node_id_from_client_public_key =
                               get_node_id (state w2) client_public_key_bytes
                         in
                         (case request_node_id request of
                            Inl err \<Rightarrow> (Inl err, w2)
                          | Inr rid \<Rightarrow>
                              if \<not> verify \<and> \<not> (node_id_from_client_public_key = Some rid)
                              then (Inl (Abort UNAUTHENTICATED ''Access denied!''), w2)
                              else forward e request w2)))
               else (Inl (Abort UNAUTHENTICATED ''Access denied!''), w1)))"

subsection \<open>A concrete deployment\<close>

text \<open>
  One trusted client whose key bytes are \<open>KA\<close> (base64 \<open>S0E=\<close>), a server key \<open>KS\<close>
  (base64 \<open>S1M=\<close>), a decoder that knows these and the token \<open>tag\<close> (base64
  \<open>dGFn\<close>) and raises on anything else, a MAC check that accepts the token \<open>tag\<close>, and
  an underlying handler that mints node id 7.
\<close>

definition example_b64decode :: "bytes \<Rightarrow> bytes option" where
  "example_b64decode b =
     (if b = [] then Some []
      else if b = ''S0E='' then Some ''KA''
      else if b = ''dGFn'' then Some ''tag''
      else if b = ''YmFk'' then Some ''bad''
      else None)"

fun example_handler :: "request \<Rightarrow> State \<Rightarrow> (error + response) \<times> State" where
  "example_handler (CreateNodeRequest p) s =
     (Inr (CreateNodeResponse (Node 7 False)), s\<lparr>leases := (leases s)(7 \<mapsto> p)\<rparr>)"
| "example_handler (DeleteNodeRequest n) s =
     (Inr DeleteNodeResponse, s\<lparr>leases := (leases s)(node_id n := None)\<rparr>)"
| "example_handler (PullTaskInsRequest n) s = (Inr (PullTaskInsResponse []), s)"
| "example_handler (PushTaskResRequest rs) s = (Inr (PushTaskResResponse []), s)"
| "example_handler OtherRequest s = (Inl (Abort UNIMPLEMENTED ''Method not found!''), s)"

definition example_env :: env where
  "example_env =
     \<lparr>urlsafe_b64decode = example_b64decode,
      urlsafe_b64encode = (\<lambda>b. if b = ''KS'' then ''S1M='' else []),
      bytes_to_public_key = (\<lambda>b. Some (PublicKey b)),
      public_key_to_bytes = (\<lambda>k. case k of PublicKey b \<Rightarrow> b),
      generate_shared_key = (\<lambda>sk pk. case (sk, pk) of (PrivateKey a, PublicKey b) \<Rightarrow> a @ b),
      verify_hmac = (\<lambda>secret message hmac_value. hmac_value = ''tag''),
      SerializeToString = (\<lambda>r. []),
      unary_unary = example_handler\<rparr>"

definition example_self :: AuthenticateServerInterceptor where
  "example_self = \<lparr>server_private_key = PrivateKey ''ks'', server_public_key = PublicKey ''KS''\<rparr>"

definition example_world :: "bytes set \<Rightarrow> (bytes \<times> int) list \<Rightarrow> world" where
  "example_world trusted bindings =
     \<lparr>state = \<lparr>client_public_keys = trusted, node_ids = map_of bindings, leases = Map.empty\<rparr>,
      effects = []\<rparr>"

section \<open>The node reconciliation loop (driver/app.py)\<close>

subsection \<open>Names\<close>

text \<open>
  Python looks a name up when the expression that holds it is evaluated, among the
  function's local names, the module's global names and the builtins; a name bound
  nowhere raises \<open>NameError\<close>. The functions below take the global names that are
  bound at the time of the call.

  \<open>import_names\<close> are the names the module's \<open>import\<close> statements and its two
  assignments bind. \<open>List\<close>, \<open>cast\<close> and \<open>certificates\<close> are not among them:
  \<open>from typing import Dict, Optional, Union\<close> is all the module takes from \<open>typing\<close>.
\<close>

datatype app_error =
    RuntimeError string
  | KeyError int
  | NameError string
  | SystemExit string
  | OtherError string

definition import_names :: "string list" where
  "import_names =
     [''sys'', ''threading'', ''time'', ''INFO'', ''Path'', ''Dict'', ''Optional'', ''Union'',
      ''EventType'', ''event'', ''parse_address'', ''log'', ''ServerConfig'', ''init_defaults'',
      ''run_fl'', ''ClientManager'', ''History'', ''Server'', ''Strategy'', ''Driver'',
      ''DriverClientProxy'', ''GrpcDriver'', ''DEFAULT_SERVER_ADDRESS_DRIVER'',
      ''ERROR_MESSAGE_DRIVER_NOT_CONNECTED'']"

text \<open>The builtins the module uses.\<close>

definition builtin_names :: "string list" where
  "builtin_names =
     [''str'', ''bytes'', ''bool'', ''int'', ''set'', ''isinstance'', ''RuntimeError'']"

definition lookup :: "string list \<Rightarrow> string list \<Rightarrow> string \<Rightarrow> app_error option" where
  "lookup globals locals name =
     (if name \<in> set locals \<or> name \<in> set globals \<or> name \<in> set builtin_names then None
      else Some (NameError name))"

text \<open>Evaluation from left to right stops at the first exception.\<close>

fun first_error :: "app_error option list \<Rightarrow> app_error option" where
  "first_error [] = None"
| "first_error (None # es) = first_error es"
| "first_error (Some err # es) = Some err"

text \<open>
  A \<open>def\<close> statement evaluates the annotations of the parameters and of the result, in
  this order, and then binds the function's name. For \<open>start_driver\<close> these are the
  default \<open>DEFAULT_SERVER_ADDRESS_DRIVER\<close> and \<open>str\<close>, \<open>Optional[Server]\<close>,
  \<open>Optional[ServerConfig]\<close>, \<open>Optional[Strategy]\<close>, \<open>Optional[ClientManager]\<close>,
  \<open>Optional[Union[bytes, str]]\<close> and \<open>History\<close>; for \<open>update_client_manager\<close> they are
  \<open>Driver\<close>, \<open>ClientManager\<close> and \<open>List[bool]\<close>.
\<close>

definition def_statement :: "string \<Rightarrow> string list \<Rightarrow> string list \<Rightarrow> app_error + string list" where
  "def_statement name annotations globals =
     (case first_error (map (lookup globals []) annotations) of
        Some err \<Rightarrow> Inl err
      | None \<Rightarrow> Inr (globals @ [name]))"

definition def_start_driver :: "string list \<Rightarrow> app_error + string list" where
  "def_start_driver globals =
     def_statement ''start_driver''
       [''DEFAULT_SERVER_ADDRESS_DRIVER'', ''str'', ''Optional'', ''Server'', ''Optional'',
        ''ServerConfig'', ''Optional'', ''Strategy'', ''Optional'', ''ClientManager'',
        ''Optional'', ''Union'', ''bytes'', ''str'', ''History'']
       globals"

definition def_update_client_manager :: "string list \<Rightarrow> app_error + string list" where
  "def_update_client_manager globals =
     def_statement ''update_client_manager'' [''Driver'', ''ClientManager'', ''List'', ''bool'']
       globals"

text \<open>
  Running the module: the imports, then the two \<open>def\<close> statements. \<open>Inl\<close> is the
  exception that ends the import of the module.
\<close>

definition exec_module :: "app_error + string list" where
  "exec_module =
     (case def_start_driver import_names of
        Inl err \<Rightarrow> Inl err
      | Inr globals \<Rightarrow> def_update_client_manager globals)"

text \<open>The global names once \<open>def start_driver\<close> has run: the names the module binds.\<close>

definition module_names :: "string list" where
  "module_names = import_names @ [''start_driver'']"

subsection \<open>Data\<close>

text \<open>
  A \<open>Driver\<close> holds its gRPC driver and its workload id, both optional; the proxy built
  for a node takes them over.
\<close>

datatype GrpcDriver = GrpcDriver (driver_service_address: string)

record Driver =
  grpc_driver :: "GrpcDriver option"
  workload_id :: "int option"

datatype DriverClientProxy =
  DriverClientProxy (proxy_node_id: int) (proxy_driver: "GrpcDriver option")
    (proxy_anonymous: bool) (proxy_workload_id: "int option")

subsection \<open>The Client Manager\<close>

text \<open>
  Modelled from the spec: the Client Manager (\<open>flwr.server.client_manager\<close> is not among
  the sources). It maps node ids to proxies. \<open>register\<close> returns false, and changes
  nothing, if the node id is already present; \<open>unregister\<close> removes the proxy's id and
  tolerates an id that is not there.

  A Python dictionary is an association list with distinct keys, in insertion order:
  \<open>d[k] = v\<close> is \<open>AList.update k v d\<close>, \<open>del d[k]\<close> is \<open>AList.delete k d\<close>, \<open>d[k]\<close> is
  \<open>map_of d k\<close>, and \<open>set(d)\<close> is \<open>keys d\<close>.
\<close>

type_synonym 'v dict = "(int \<times> 'v) list"

definition keys :: "'v dict \<Rightarrow> int set" where
  "keys d = fst ` set d"

type_synonym ClientManager = "DriverClientProxy dict"

definition register :: "DriverClientProxy \<Rightarrow> ClientManager \<Rightarrow> bool \<times> ClientManager" where
  "register p cm =
     (if proxy_node_id p \<in> keys cm then (False, cm)
      else (True, AList.update (proxy_node_id p) p cm))"

definition unregister :: "DriverClientProxy \<Rightarrow> ClientManager \<Rightarrow> ClientManager" where
  "unregister p cm = AList.delete (proxy_node_id p) cm"

subsection \<open>One cycle\<close>

text \<open>
  The loop's variables: its dictionary \<open>registered_nodes\<close>, the client manager it was
  given, and the calls it has made on its collaborators, in order.
\<close>

datatype call = Get_nodes | Unregister int | Register int | Sleep nat

record loop_state =
  registered_nodes :: "DriverClientProxy dict"
  client_manager :: ClientManager
  calls :: "call list"

text \<open>The local names of \<open>update_client_manager\<close> that are bound inside the loop.\<close>

definition loop_locals :: "string list" where
  "loop_locals =
     [''driver'', ''client_manager'', ''ref_exit_flag'', ''registered_nodes'', ''all_node_ids'',
      ''dead_nodes'', ''new_nodes'', ''node_id'', ''client_proxy'']"

text \<open>
  \<open>for node_id in dead_nodes\<close>: look the proxy up (a \<open>KeyError\<close> if the dictionary has
  no such key), unregister it, delete the key. The list is the order in which the
  \<open>for\<close> statement visits the set.
\<close>

fun unregister_dead :: "int list \<Rightarrow> loop_state \<Rightarrow> app_error option \<times> loop_state" where
  "unregister_dead [] s = (None, s)"
| "unregister_dead (n # ns) s =
     (case map_of (registered_nodes s) n of
        None \<Rightarrow> (Some (KeyError n), s)
      | Some client_proxy \<Rightarrow>
          unregister_dead ns
            (s\<lparr>registered_nodes := AList.delete n (registered_nodes s),
               client_manager := unregister client_proxy (client_manager s),
               calls := calls s @ [Unregister n]\<rparr>))"

text \<open>
  \<open>for node_id in new_nodes\<close>. The proxy is built by
  \<open>DriverClientProxy(node_id=node_id, driver=cast(GrpcDriver, driver.grpc_driver),
  anonymous=False, workload_id=cast(int, driver.workload_id))\<close>, which looks up, in this
  order, the names of \<open>proxy_expression_names\<close>. Then the proxy is registered, and
  stored in the dictionary if \<open>register\<close> returned true; otherwise \<open>RuntimeError\<close> is
  raised.
\<close>

definition proxy_expression_names :: "string list" where
  "proxy_expression_names =
     [''DriverClientProxy'', ''node_id'', ''cast'', ''GrpcDriver'', ''driver'', ''cast'', ''int'',
      ''driver'']"

fun register_new ::
  "string list \<Rightarrow> Driver \<Rightarrow> int list \<Rightarrow> loop_state \<Rightarrow> app_error option \<times> loop_state" where
  "register_new globals driver [] s = (None, s)"
| "register_new globals driver (n # ns) s =
     (case first_error (map (lookup globals loop_locals) proxy_expression_names) of
        Some err \<Rightarrow> (Some err, s)
      | None \<Rightarrow>
          (let client_proxy = DriverClientProxy n (grpc_driver driver) False (workload_id driver);
               (ok, cm) = register client_proxy (client_manager s);
               s' = s\<lparr>client_manager := cm, calls := calls s @ [Register n]\<rparr>
           in if ok
              then register_new globals driver ns
                     (s'\<lparr>registered_nodes := AList.update n client_proxy (registered_nodes s')\<rparr>)
              else (Some (RuntimeError ''Could not register node.''), s')))"

text \<open>
  The body of the \<open>while\<close> loop. \<open>nodes\<close> is what \<open>driver.get_nodes()\<close> returned in
  this cycle; \<open>order\<close> gives the order in which Python iterates over a set, which the
  language leaves open.
\<close>

definition cycle ::
  "string list \<Rightarrow> (int set \<Rightarrow> int list) \<Rightarrow> Driver \<Rightarrow> Node list \<Rightarrow> loop_state
     \<Rightarrow> app_error option \<times> loop_state"
  where
  "cycle globals order driver nodes s0 =
     (let s1 = s0\<lparr>calls := calls s0 @ [Get_nodes]\<rparr>;
          all_node_ids = node_id ` set nodes;
          dead_nodes = keys (registered_nodes s1) - all_node_ids;
          new_nodes = all_node_ids - keys (registered_nodes s1)
      in case unregister_dead (order dead_nodes) s1 of
           (Some err, s2) \<Rightarrow> (Some err, s2)
         | (None, s2) \<Rightarrow>
             (case register_new globals driver (order new_nodes) s2 of
                (Some err, s3) \<Rightarrow> (Some err, s3)
              | (None, s3) \<Rightarrow> (None, s3\<lparr>calls := calls s3 @ [Sleep 3]\<rparr>)))"

subsection \<open>The loop\<close>

text \<open>
  The body of \<open>update_client_manager\<close>. The loop reads two things from outside in each
  cycle: the exit flag at the top, and the answer of \<open>driver.get_nodes()\<close> (the nodes,
  or an exception). The list gives these readings cycle by cycle. The loop is
  \<open>Running\<close> when the readings are used up before the flag was read as set.
\<close>

datatype outcome = Returned | Raised app_error | Running

fun update_client_manager_body ::
  "string list \<Rightarrow> (int set \<Rightarrow> int list) \<Rightarrow> Driver \<Rightarrow> (bool \<times> (app_error + Node list)) list
     \<Rightarrow> loop_state \<Rightarrow> outcome \<times> loop_state" where
  "update_client_manager_body globals order driver [] s = (Running, s)"
| "update_client_manager_body globals order driver ((ref_exit_flag, got) # readings) s =
     (if ref_exit_flag then (Returned, s)
      else
        (case got of
           Inl err \<Rightarrow> (Raised err, s\<lparr>calls := calls s @ [Get_nodes]\<rparr>)
         | Inr nodes \<Rightarrow>
             (case cycle globals order driver nodes s of
                (Some err, s') \<Rightarrow> (Raised err, s')
              | (None, s') \<Rightarrow> update_client_manager_body globals order driver readings s')))"

text \<open>
  \<open>update_client_manager\<close> as the module gives it: its \<open>def\<close> statement has to run
  before the function can be called, and the body then runs with the global names the
  statement leaves.
\<close>

definition update_client_manager ::
  "string list \<Rightarrow> (int set \<Rightarrow> int list) \<Rightarrow> Driver \<Rightarrow> (bool \<times> (app_error + Node list)) list
     \<Rightarrow> loop_state \<Rightarrow> outcome \<times> loop_state" where
  "update_client_manager globals order driver readings s =
     (case def_update_client_manager globals of
        Inl err \<Rightarrow> (Raised err, s)
      | Inr globals' \<Rightarrow> update_client_manager_body globals' order driver readings s)"

definition initial_loop_state :: "ClientManager \<Rightarrow> loop_state" where
  "initial_loop_state cm = \<lparr>registered_nodes = [], client_manager = cm, calls = []\<rparr>"

text \<open>
  The loop's dictionary is well formed when every proxy is stored under its own node
  id, as the loop stores it.
\<close>

definition well_formed :: "loop_state \<Rightarrow> bool" where
  "well_formed s = list_all (\<lambda>(n, p). proxy_node_id p = n) (registered_nodes s)"

text \<open>An order of iteration visits every element of a finite set once.\<close>

definition iteration_order :: "(int set \<Rightarrow> int list) \<Rightarrow> bool" where
  "iteration_order order = (\<forall>S. finite S \<longrightarrow> set (order S) = S \<and> distinct (order S))"

subsection \<open>\<open>start_driver\<close>\<close>

text \<open>
  The calls \<open>start_driver\<close> makes, in order, and what it needs from outside: the address
  parser (the port comes as its decimal text), the reading of a certificate file, the
  connection of the gRPC driver, and the training \<open>run_fl\<close>.
\<close>

datatype History = History "real list"

datatype main_call =
    Event_start_driver_enter
  | Read_bytes string
  | Connect string
  | Init_defaults
  | Log_starting
  | Thread_start
  | Run_fl
  | Set_exit_flag
  | Thread_join
  | Event_start_server_leave

record driver_env =
  parse_address :: "string \<Rightarrow> (string \<times> string \<times> bool) option"
  read_bytes :: "string \<Rightarrow> app_error + bytes"
  connect :: "string \<Rightarrow> bytes option \<Rightarrow> app_error option"
  run_fl :: "app_error + History"

text \<open>The local names of \<open>start_driver\<close> that are bound when the thread is created.\<close>

definition start_driver_locals :: "string list" where
  "start_driver_locals =
     [''server_address'', ''server'', ''config'', ''strategy'', ''client_manager'',
      ''root_certificates'', ''parsed_address'', ''host'', ''port'', ''is_v6'', ''address'',
      ''driver'', ''lock'', ''initialized_server'', ''initialized_config'', ''ref_exit_flag'']"

text \<open>
  \<open>threading.Thread(target=update_client_manager, args=(Driver(driver_service_address=address,
  certificates=certificates), initialized_server.client_manager(), ref_exit_flag))\<close> looks
  up, in this order:
\<close>

definition thread_expression_names :: "string list" where
  "thread_expression_names =
     [''threading'', ''update_client_manager'', ''Driver'', ''address'', ''certificates'',
      ''initialized_server'', ''ref_exit_flag'']"

text \<open>
  \<open>root_certificates\<close> is absent, a path (\<open>str\<close>) or the bytes. After the thread is
  started the function runs the training, stores \<open>True\<close> in the flag, joins the thread
  and returns the history.
\<close>

definition start_driver ::
  "string list \<Rightarrow> driver_env \<Rightarrow> string \<Rightarrow> mdval option \<Rightarrow> (app_error + History) \<times> main_call list"
  where
  "start_driver globals env server_address root_certificates =
     (let t0 = [Event_start_driver_enter] in
      case parse_address env server_address of
        None \<Rightarrow>
          (Inl (SystemExit (''Server IP address ('' @ server_address @ '') cannot be parsed.'')),
           t0)
      | Some (host, port, is_v6) \<Rightarrow>
          let address = (if is_v6 then ''['' @ host @ '']:'' @ port else host @ '':'' @ port);
              (read, t1) =
                (case root_certificates of
                   Some (Str path) \<Rightarrow>
                     (case read_bytes env path of
                        Inl err \<Rightarrow> (Inl err, t0 @ [Read_bytes path])
                      | Inr b \<Rightarrow> (Inr (Some b), t0 @ [Read_bytes path]))
                 | Some (Bytes b) \<Rightarrow> (Inr (Some b), t0)
                 | None \<Rightarrow> (Inr None, t0))
          in
          (case read of
             Inl err \<Rightarrow> (Inl err, t1)
           | Inr certs \<Rightarrow>
               (case connect env address certs of
                  Some err \<Rightarrow> (Inl err, t1 @ [Connect address])
                | None \<Rightarrow>
                    let t2 = t1 @ [Connect address, Init_defaults, Log_starting] in
                    (case first_error
                            (map (lookup globals start_driver_locals) thread_expression_names) of
                       Some err \<Rightarrow> (Inl err, t2)
                     | None \<Rightarrow>
                         (case run_fl env of
                            Inl err \<Rightarrow> (Inl err, t2 @ [Thread_start, Run_fl])
                          | Inr hist \<Rightarrow>
                              (Inr hist,
                               t2 @ [Thread_start, Run_fl, Set_exit_flag, Thread_join,
                                     Event_start_server_leave]))))))"

subsection \<open>A concrete driver\<close>

definition example_driver :: Driver where
  "example_driver = \<lparr>grpc_driver = Some (GrpcDriver ''[::]:9091''), workload_id = Some 5\<rparr>"



text \<open>
  A registry that is reached at the default address, with no certificates, and a
  training of one round.
\<close>

definition example_driver_env :: driver_env where
  "example_driver_env =
     \<lparr>parse_address = (\<lambda>a. if a = ''[::]:9091'' then Some (''::'', ''9091'', True) else None),
      read_bytes = (\<lambda>path. Inl (OtherError ''FileNotFoundError'')),
      connect = (\<lambda>address certs. None),
      run_fl = Inr (History [0.5])\<rparr>"

section \<open>Properties of the gate\<close>

lemmas example_defs =
  example_env_def example_self_def example_world_def example_b64decode_def
  PUBLIC_KEY_HEADER_def AUTH_TOKEN_HEADER_def

lemmas gate_defs =
  generic_method_handler_def emit_def get_client_public_keys_def get_node_id_def forward_def

text \<open>The header lookup returns the first value stored under the key.\<close>

lemma get_value_map_of:
  "get_value_from_tuples key md =
     (case map_of md key of None \<Rightarrow> [] | Some (Str s) \<Rightarrow> s | Some (Bytes b) \<Rightarrow> b)"
  by (induction md) (auto split: mdval.splits)

lemma request_node_id_no_abort: "request_node_id r \<noteq> Inl (Abort code details)"
  by (cases r rule: request_node_id.cases) simp_all

subsection \<open>First contact\<close>

text \<open>
  C2. A \<open>CreateNodeRequest\<close> from a trusted public key that has a bound node id \<open>N\<close>:
  the gate calls \<open>restore_node\<close> with \<open>N\<close> and the request's ping interval, stores the
  pair of the key and \<open>N\<close> again, and returns a \<open>CreateNodeResponse\<close> it builds itself,
  with node id \<open>N\<close> and \<open>anonymous = False\<close>. The calls it makes are exactly the five
  listed: the underlying handler is not among them.
\<close>

theorem reconnect_restores_node:
  assumes "urlsafe_b64decode e (get_value_from_tuples PUBLIC_KEY_HEADER md) = Some k"
      and "k \<in> get_client_public_keys (state w)"
      and "get_node_id (state w) k = Some N"
  shows "generic_method_handler e self (CreateNodeRequest p) md w =
           (Inr (CreateNodeResponse (Node N False)),
            \<lparr>state = store_node_id_client_public_key_pair k N (restore_node N p (state w)),
             effects = effects w @
               [Get_client_public_keys,
                Send_initial_metadata [(PUBLIC_KEY_HEADER,
                   urlsafe_b64encode e (public_key_to_bytes e (server_public_key self)))],
                Get_node_id k, Restore_node N p,
                Store_node_id_client_public_key_pair k N]\<rparr>)"
  using assms by (simp add: gate_defs)

theorem reconnect_restores_node_witness:
  "urlsafe_b64decode example_env
     (get_value_from_tuples PUBLIC_KEY_HEADER [(''public-key'', Str ''S0E='')]) = Some ''KA''
   \<and> ''KA'' \<in> get_client_public_keys (state (example_world {''KA''} [(''KA'', 7)]))
   \<and> get_node_id (state (example_world {''KA''} [(''KA'', 7)])) ''KA'' = Some 7
   \<and> generic_method_handler example_env example_self (CreateNodeRequest 30)
        [(''public-key'', Str ''S0E='')] (example_world {''KA''} [(''KA'', 7)]) =
      (Inr (CreateNodeResponse (Node 7 False)),
       \<lparr>state = store_node_id_client_public_key_pair ''KA'' 7
                  (restore_node 7 30 (state (example_world {''KA''} [(''KA'', 7)]))),
        effects =
          [Get_client_public_keys, Send_initial_metadata [(''public-key'', ''S1M='')],
           Get_node_id ''KA'', Restore_node 7 30,
           Store_node_id_client_public_key_pair ''KA'' 7]\<rparr>)"
proof -
  have a: "urlsafe_b64decode example_env
     (get_value_from_tuples PUBLIC_KEY_HEADER [(''public-key'', Str ''S0E='')]) = Some ''KA''"
    by (simp add: example_defs)
  have b: "''KA'' \<in> get_client_public_keys (state (example_world {''KA''} [(''KA'', 7)]))"
    by (simp add: example_defs get_client_public_keys_def)
  have c: "get_node_id (state (example_world {''KA''} [(''KA'', 7)])) ''KA'' = Some 7"
    by (simp add: example_defs get_node_id_def)
  from reconnect_restores_node [OF a b c, of example_self 30] a b c show ?thesis
    by (simp add: example_defs)
qed

text \<open>
  C4. A \<open>CreateNodeRequest\<close> from a trusted public key for which \<open>get_node_id\<close> finds no
  binding: the gate forwards the request to the underlying handler, stores the pair of
  the key and the node id of the handler's response, in the store as the handler left
  it, and returns that response as it is.
\<close>

theorem fresh_registration_forwarded:
  assumes "urlsafe_b64decode e (get_value_from_tuples PUBLIC_KEY_HEADER md) = Some k"
      and "k \<in> get_client_public_keys (state w)"
      and "get_node_id (state w) k = None"
      and "unary_unary e (CreateNodeRequest p) (state w) = (Inr (CreateNodeResponse nd), s')"
  shows "generic_method_handler e self (CreateNodeRequest p) md w =
           (Inr (CreateNodeResponse nd),
            \<lparr>state = store_node_id_client_public_key_pair k (node_id nd) s',
             effects = effects w @
               [Get_client_public_keys,
                Send_initial_metadata [(PUBLIC_KEY_HEADER,
                   urlsafe_b64encode e (public_key_to_bytes e (server_public_key self)))],
                Get_node_id k, Unary_unary (CreateNodeRequest p),
                Store_node_id_client_public_key_pair k (node_id nd)]\<rparr>)"
  using assms by (simp add: gate_defs)

theorem fresh_registration_forwarded_witness:
  "urlsafe_b64decode example_env
     (get_value_from_tuples PUBLIC_KEY_HEADER [(''public-key'', Str ''S0E='')]) = Some ''KA''
   \<and> ''KA'' \<in> get_client_public_keys (state (example_world {''KA''} []))
   \<and> get_node_id (state (example_world {''KA''} [])) ''KA'' = None
   \<and> unary_unary example_env (CreateNodeRequest 30) (state (example_world {''KA''} [])) =
       (Inr (CreateNodeResponse (Node 7 False)),
        (state (example_world {''KA''} []))\<lparr>leases := [7 \<mapsto> 30]\<rparr>)
   \<and> generic_method_handler example_env example_self (CreateNodeRequest 30)
        [(''public-key'', Str ''S0E='')] (example_world {''KA''} []) =
      (Inr (CreateNodeResponse (Node 7 False)),
       \<lparr>state = store_node_id_client_public_key_pair ''KA'' 7
                  ((state (example_world {''KA''} []))\<lparr>leases := [7 \<mapsto> 30]\<rparr>),
        effects =
          [Get_client_public_keys, Send_initial_metadata [(''public-key'', ''S1M='')],
           Get_node_id ''KA'', Unary_unary (CreateNodeRequest 30),
           Store_node_id_client_public_key_pair ''KA'' 7]\<rparr>)
   \<and> get_node_id (store_node_id_client_public_key_pair ''KA'' 7
                  ((state (example_world {''KA''} []))\<lparr>leases := [7 \<mapsto> 30]\<rparr>)) ''KA'' = Some 7"
proof -
  have a: "urlsafe_b64decode example_env
     (get_value_from_tuples PUBLIC_KEY_HEADER [(''public-key'', Str ''S0E='')]) = Some ''KA''"
    by (simp add: example_defs)
  have b: "''KA'' \<in> get_client_public_keys (state (example_world {''KA''} []))"
    by (simp add: example_defs get_client_public_keys_def)
  have c: "get_node_id (state (example_world {''KA''} [])) ''KA'' = None"
    by (simp add: example_defs get_node_id_def)
  have d: "unary_unary example_env (CreateNodeRequest 30) (state (example_world {''KA''} [])) =
       (Inr (CreateNodeResponse (Node 7 False)),
        (state (example_world {''KA''} []))\<lparr>leases := [7 \<mapsto> 30]\<rparr>)"
    by (simp add: example_defs)
  from fresh_registration_forwarded [OF a b c d, of example_self] a b c d show ?thesis
    by (simp add: example_defs get_node_id_def store_node_id_client_public_key_pair_def)
qed

text \<open>
  C9. For every \<open>CreateNodeRequest\<close> from a trusted public key, the gate sends the
  server's public key, base64-encoded under the \<open>public-key\<close> header, as initial
  metadata, and it does so before it looks the client's key up in the store, that is
  before it is decided whether the node is restored or newly registered: whichever
  branch follows, the calls begin with these three.
\<close>

theorem server_key_sent_before_lookup:
  assumes "urlsafe_b64decode e (get_value_from_tuples PUBLIC_KEY_HEADER md) = Some k"
      and "k \<in> get_client_public_keys (state w)"
  shows "\<exists>rest. effects (snd (generic_method_handler e self (CreateNodeRequest p) md w)) =
           effects w @
             [Get_client_public_keys,
              Send_initial_metadata [(PUBLIC_KEY_HEADER,
                   urlsafe_b64encode e (public_key_to_bytes e (server_public_key self)))],
              Get_node_id k] @ rest"
  using assms
  by (auto simp add: gate_defs Let_def
      split: option.splits prod.splits sum.splits response.splits)

theorem server_key_sent_before_lookup_witness:
  "urlsafe_b64decode example_env
     (get_value_from_tuples PUBLIC_KEY_HEADER [(''public-key'', Str ''S0E='')]) = Some ''KA''
   \<and> ''KA'' \<in> get_client_public_keys (state (example_world {''KA''} []))
   \<and> (\<exists>rest. effects (snd (generic_method_handler example_env example_self (CreateNodeRequest 30)
                 [(''public-key'', Str ''S0E='')] (example_world {''KA''} []))) =
         effects (example_world {''KA''} []) @
           [Get_client_public_keys,
            Send_initial_metadata [(PUBLIC_KEY_HEADER,
              urlsafe_b64encode example_env
                (public_key_to_bytes example_env (server_public_key example_self)))],
            Get_node_id ''KA''] @ rest)
   \<and> urlsafe_b64encode example_env
        (public_key_to_bytes example_env (server_public_key example_self)) = ''S1M=''"
proof -
  have a: "urlsafe_b64decode example_env
     (get_value_from_tuples PUBLIC_KEY_HEADER [(''public-key'', Str ''S0E='')]) = Some ''KA''"
    by (simp add: example_defs)
  have b: "''KA'' \<in> get_client_public_keys (state (example_world {''KA''} []))"
    by (simp add: example_defs get_client_public_keys_def)
  have c: "urlsafe_b64encode example_env
        (public_key_to_bytes example_env (server_public_key example_self)) = ''S1M=''"
    by (simp add: example_defs)
  from server_key_sent_before_lookup [OF a b, of example_self 30] a b c show ?thesis
    by blast
qed

subsection \<open>Unknown keys\<close>

text \<open>
  A header value that decodes to a key outside the trusted set: for every request, of
  any kind, the call is rejected with an unauthenticated failure, and all the handler
  has done by then is to read the trusted set. The store is as it was and the
  underlying handler was not called.
\<close>

lemma unknown_public_key_rejected:
  assumes "urlsafe_b64decode e (get_value_from_tuples PUBLIC_KEY_HEADER md) = Some k"
      and "k \<notin> get_client_public_keys (state w)"
  shows "generic_method_handler e self request md w =
           (Inl (Abort UNAUTHENTICATED ''Access denied!''),
            w\<lparr>effects := effects w @ [Get_client_public_keys]\<rparr>)"
  using assms by (simp add: gate_defs)

text \<open>
  A call with no \<open>public-key\<close> header: the handler decodes the empty string, and the
  call is rejected when the result is not a trusted key.
\<close>

lemma absent_header_rejected:
  assumes "map_of md PUBLIC_KEY_HEADER = None"
      and "urlsafe_b64decode e [] = Some k"
      and "k \<notin> get_client_public_keys (state w)"
  shows "generic_method_handler e self request md w =
           (Inl (Abort UNAUTHENTICATED ''Access denied!''),
            w\<lparr>effects := effects w @ [Get_client_public_keys]\<rparr>)"
  using assms by (simp add: gate_defs get_value_map_of)

text \<open>
  C3 does not hold of the code. A \<open>public-key\<close> header that is not valid base64 yields
  no decoded value, let alone a trusted one, and the claim has the call rejected with
  an unauthenticated failure. The handler calls \<open>base64.urlsafe_b64decode\<close> outside any
  \<open>try\<close>: for every request, of any kind, the call ends in the decoder's
  \<open>binascii.Error\<close>, not in the rejection. Nothing has been read or changed by then.
\<close>

theorem undecodable_public_key_raises:
  assumes "urlsafe_b64decode e (get_value_from_tuples PUBLIC_KEY_HEADER md) = None"
  shows "generic_method_handler e self request md w = (Inl binascii_Error, w)
       \<and> fst (generic_method_handler e self request md w) \<noteq>
           Inl (Abort UNAUTHENTICATED ''Access denied!'')"
  using assms by (simp add: gate_defs)

theorem undecodable_public_key_raises_witness:
  "urlsafe_b64decode example_env
     (get_value_from_tuples PUBLIC_KEY_HEADER [(''public-key'', Str ''abc'')]) = None
   \<and> generic_method_handler example_env example_self (PullTaskInsRequest (Node 7 False))
        [(''public-key'', Str ''abc'')] (example_world {''KA''} [(''KA'', 7)]) =
      (Inl binascii_Error, example_world {''KA''} [(''KA'', 7)])
   \<and> fst (generic_method_handler example_env example_self (PullTaskInsRequest (Node 7 False))
            [(''public-key'', Str ''abc'')] (example_world {''KA''} [(''KA'', 7)])) \<noteq>
       Inl (Abort UNAUTHENTICATED ''Access denied!'')"
proof -
  have a: "urlsafe_b64decode example_env
     (get_value_from_tuples PUBLIC_KEY_HEADER [(''public-key'', Str ''abc'')]) = None"
    by (simp add: example_defs)
  from undecodable_public_key_raises [OF a] a show ?thesis by blast
qed

subsection \<open>Session-authenticated calls\<close>

text \<open>
  The decision of the gate for a deregistration, a task pull and a task push with a
  first result: the call is rejected if and only if the MAC check fails and the node id
  of the request is not the one bound to the key; otherwise it is forwarded.
\<close>

lemma session_gate_decision:
  assumes "urlsafe_b64decode e (get_value_from_tuples PUBLIC_KEY_HEADER md) = Some k"
      and "k \<in> get_client_public_keys (state w)"
      and "is_session_request request"
      and "urlsafe_b64decode e (get_value_from_tuples AUTH_TOKEN_HEADER md) = Some h"
      and "bytes_to_public_key e k = Some pk"
      and "request_node_id request = Inr rid"
  shows "generic_method_handler e self request md w =
          (if \<not> verify_hmac e (generate_shared_key e (server_private_key self) pk)
                   (SerializeToString e request) h
              \<and> get_node_id (state w) k \<noteq> Some rid
           then (Inl (Abort UNAUTHENTICATED ''Access denied!''),
                 w\<lparr>effects := effects w @ [Get_client_public_keys, Get_node_id k]\<rparr>)
           else forward e request
                  (w\<lparr>effects := effects w @ [Get_client_public_keys, Get_node_id k]\<rparr>))"
  using assms by (cases request) (auto simp add: gate_defs Let_def)

text \<open>
  C1 does not hold of a \<open>PushTaskResRequest\<close> whose \<open>task_res_list\<close> is empty: here
  the key is trusted and the token is the valid one, and the call ends in the
  \<open>IndexError\<close> of \<open>request.task_res_list[0]\<close>; the underlying handler is not called.
\<close>

theorem push_empty_list_valid_hmac_not_forwarded:
  "is_session_request (PushTaskResRequest [])
   \<and> urlsafe_b64decode example_env
       (get_value_from_tuples PUBLIC_KEY_HEADER
          [(''public-key'', Str ''S0E=''), (''auth-token'', Str ''dGFn'')]) = Some ''KA''
   \<and> ''KA'' \<in> get_client_public_keys (state (example_world {''KA''} [(''KA'', 7)]))
   \<and> urlsafe_b64decode example_env
       (get_value_from_tuples AUTH_TOKEN_HEADER
          [(''public-key'', Str ''S0E=''), (''auth-token'', Str ''dGFn'')]) = Some ''tag''
   \<and> verify_hmac example_env
       (generate_shared_key example_env (server_private_key example_self) (PublicKey ''KA''))
       (SerializeToString example_env (PushTaskResRequest [])) ''tag''
   \<and> generic_method_handler example_env example_self (PushTaskResRequest [])
        [(''public-key'', Str ''S0E=''), (''auth-token'', Str ''dGFn'')]
        (example_world {''KA''} [(''KA'', 7)]) =
      (Inl IndexError,
       (example_world {''KA''} [(''KA'', 7)])\<lparr>effects := [Get_client_public_keys, Get_node_id ''KA'']\<rparr>)"
  by (simp add: example_defs gate_defs)

text \<open>
  C10. A \<open>PushTaskResRequest\<close> from a trusted public key with an empty
  \<open>task_res_list\<close>: the handler reads the first element with no guard, so once the
  token has been decoded and the key parsed the call ends in an \<open>IndexError\<close>. In every
  case it ends in an exception that is not the gate's rejection, with the store
  untouched and the underlying handler not called. A task push from a trusted key that
  the gate rejects has a non-empty list.
\<close>

theorem push_empty_list_index_error:
  assumes "urlsafe_b64decode e (get_value_from_tuples PUBLIC_KEY_HEADER md) = Some k"
      and "k \<in> get_client_public_keys (state w)"
  shows "(urlsafe_b64decode e (get_value_from_tuples AUTH_TOKEN_HEADER md) = Some h
           \<and> bytes_to_public_key e k = Some pk
          \<longrightarrow> generic_method_handler e self (PushTaskResRequest []) md w =
                (Inl IndexError,
                 w\<lparr>effects := effects w @ [Get_client_public_keys, Get_node_id k]\<rparr>))
       \<and> (\<exists>err. fst (generic_method_handler e self (PushTaskResRequest []) md w) = Inl err
                 \<and> err \<noteq> Abort UNAUTHENTICATED ''Access denied!'')
       \<and> state (snd (generic_method_handler e self (PushTaskResRequest []) md w)) = state w
       \<and> Unary_unary (PushTaskResRequest []) \<notin>
             set (drop (length (effects w))
                    (effects (snd (generic_method_handler e self (PushTaskResRequest []) md w))))
       \<and> (fst (generic_method_handler e self (PushTaskResRequest rs) md w) =
              Inl (Abort UNAUTHENTICATED ''Access denied!'') \<longrightarrow> rs \<noteq> [])"
  using assms
  by (auto simp add: gate_defs Let_def split: option.splits)

theorem push_empty_list_index_error_witness:
  "urlsafe_b64decode example_env
      (get_value_from_tuples PUBLIC_KEY_HEADER
         [(''public-key'', Str ''S0E=''), (''auth-token'', Str ''YmFk'')]) = Some ''KA''
   \<and> ''KA'' \<in> get_client_public_keys (state (example_world {''KA''} [(''KA'', 7)]))
   \<and> urlsafe_b64decode example_env
        (get_value_from_tuples AUTH_TOKEN_HEADER
           [(''public-key'', Str ''S0E=''), (''auth-token'', Str ''YmFk'')]) = Some ''bad''
   \<and> bytes_to_public_key example_env ''KA'' = Some (PublicKey ''KA'')
   \<and> generic_method_handler example_env example_self (PushTaskResRequest [])
        [(''public-key'', Str ''S0E=''), (''auth-token'', Str ''YmFk'')]
        (example_world {''KA''} [(''KA'', 7)]) =
      (Inl IndexError,
       (example_world {''KA''} [(''KA'', 7)])
         \<lparr>effects := effects (example_world {''KA''} [(''KA'', 7)]) @
                       [Get_client_public_keys, Get_node_id ''KA'']\<rparr>)
   \<and> fst (generic_method_handler example_env example_self
            (PushTaskResRequest [TaskRes (Task (Node 9 False))])
            [(''public-key'', Str ''S0E=''), (''auth-token'', Str ''YmFk'')]
            (example_world {''KA''} [(''KA'', 7)])) =
       Inl (Abort UNAUTHENTICATED ''Access denied!'')
   \<and> [TaskRes (Task (Node 9 False))] \<noteq> []"
proof -
  let ?w = "example_world {''KA''} [(''KA'', 7)]"
  let ?md = "[(''public-key'', Str ''S0E=''), (''auth-token'', Str ''YmFk'')]"
  have a: "urlsafe_b64decode example_env (get_value_from_tuples PUBLIC_KEY_HEADER ?md) = Some ''KA''"
    by (simp add: example_defs)
  have b: "''KA'' \<in> get_client_public_keys (state ?w)"
    by (simp add: example_defs get_client_public_keys_def)
  have c: "urlsafe_b64decode example_env (get_value_from_tuples AUTH_TOKEN_HEADER ?md) = Some ''bad''"
    "bytes_to_public_key example_env ''KA'' = Some (PublicKey ''KA'')"
    by (simp_all add: example_defs)
  have d: "fst (generic_method_handler example_env example_self
            (PushTaskResRequest [TaskRes (Task (Node 9 False))]) ?md ?w) =
       Inl (Abort UNAUTHENTICATED ''Access denied!'')"
    by (simp add: example_defs gate_defs)
  from push_empty_list_index_error
         [OF a b, of "''bad''" "PublicKey ''KA''" example_self "[TaskRes (Task (Node 9 False))]"]
       a b c d
  show ?thesis by simp
qed

subsection \<open>One status, one message\<close>

text \<open>
  C8. The three rejections of the gate, for an unknown public key, for a failed MAC
  check together with a node id that is not the bound one, and for a request of no
  known kind, carry the status \<open>UNAUTHENTICATED\<close> and the message \<open>Access denied!\<close>; and
  every abort that ends a call in which the underlying handler was not called carries
  this status and this message.
\<close>

theorem rejections_identical:
  "(urlsafe_b64decode ea (get_value_from_tuples PUBLIC_KEY_HEADER mda) = Some ka
      \<and> ka \<notin> get_client_public_keys (state wa)
      \<longrightarrow> fst (generic_method_handler ea selfa requesta mda wa) =
            Inl (Abort UNAUTHENTICATED ''Access denied!''))
   \<and> (urlsafe_b64decode eb (get_value_from_tuples PUBLIC_KEY_HEADER mdb) = Some kb
      \<and> kb \<in> get_client_public_keys (state wb)
      \<and> is_session_request requestb
      \<and> urlsafe_b64decode eb (get_value_from_tuples AUTH_TOKEN_HEADER mdb) = Some hb
      \<and> bytes_to_public_key eb kb = Some pkb
      \<and> \<not> verify_hmac eb (generate_shared_key eb (server_private_key selfb) pkb)
             (SerializeToString eb requestb) hb
      \<and> request_node_id requestb = Inr ridb
      \<and> get_node_id (state wb) kb \<noteq> Some ridb
      \<longrightarrow> fst (generic_method_handler eb selfb requestb mdb wb) =
            Inl (Abort UNAUTHENTICATED ''Access denied!''))
   \<and> (urlsafe_b64decode ec (get_value_from_tuples PUBLIC_KEY_HEADER mdc) = Some kc
      \<and> kc \<in> get_client_public_keys (state wc)
      \<longrightarrow> fst (generic_method_handler ec selfc OtherRequest mdc wc) =
            Inl (Abort UNAUTHENTICATED ''Access denied!''))
   \<and> (fst (generic_method_handler ed selfd requestd mdd wd) = Inl (Abort code details)
      \<and> Unary_unary requestd \<notin> set (effects (snd (generic_method_handler ed selfd requestd mdd wd)))
      \<longrightarrow> code = UNAUTHENTICATED \<and> details = ''Access denied!'')"
proof -
  have a: "urlsafe_b64decode ea (get_value_from_tuples PUBLIC_KEY_HEADER mda) = Some ka
      \<and> ka \<notin> get_client_public_keys (state wa)
      \<longrightarrow> fst (generic_method_handler ea selfa requesta mda wa) =
            Inl (Abort UNAUTHENTICATED ''Access denied!'')"
    by (simp add: gate_defs)
  have b: "urlsafe_b64decode eb (get_value_from_tuples PUBLIC_KEY_HEADER mdb) = Some kb
      \<and> kb \<in> get_client_public_keys (state wb)
      \<and> is_session_request requestb
      \<and> urlsafe_b64decode eb (get_value_from_tuples AUTH_TOKEN_HEADER mdb) = Some hb
      \<and> bytes_to_public_key eb kb = Some pkb
      \<and> \<not> verify_hmac eb (generate_shared_key eb (server_private_key selfb) pkb)
             (SerializeToString eb requestb) hb
      \<and> request_node_id requestb = Inr ridb
      \<and> get_node_id (state wb) kb \<noteq> Some ridb
      \<longrightarrow> fst (generic_method_handler eb selfb requestb mdb wb) =
            Inl (Abort UNAUTHENTICATED ''Access denied!'')"
    by (cases requestb) (auto simp add: gate_defs Let_def)
  have c: "urlsafe_b64decode ec (get_value_from_tuples PUBLIC_KEY_HEADER mdc) = Some kc
      \<and> kc \<in> get_client_public_keys (state wc)
      \<longrightarrow> fst (generic_method_handler ec selfc OtherRequest mdc wc) =
            Inl (Abort UNAUTHENTICATED ''Access denied!'')"
    by (simp add: gate_defs)
  have d: "fst (generic_method_handler ed selfd requestd mdd wd) = Inl (Abort code details)
      \<and> Unary_unary requestd \<notin> set (effects (snd (generic_method_handler ed selfd requestd mdd wd)))
      \<longrightarrow> code = UNAUTHENTICATED \<and> details = ''Access denied!''"
    by (cases requestd)
       (auto simp add: gate_defs Let_def request_node_id_no_abort
          split: option.splits prod.splits sum.splits response.splits if_splits)
  from a b c d show ?thesis by blast
qed

theorem rejections_identical_witness:
  "urlsafe_b64decode example_env
      (get_value_from_tuples PUBLIC_KEY_HEADER [(''public-key'', Str ''dGFn'')]) = Some ''tag''
   \<and> ''tag'' \<notin> get_client_public_keys (state (example_world {''KA''} [(''KA'', 7)]))
   \<and> fst (generic_method_handler example_env example_self (CreateNodeRequest 30)
            [(''public-key'', Str ''dGFn'')] (example_world {''KA''} [(''KA'', 7)])) =
       Inl (Abort UNAUTHENTICATED ''Access denied!'')
   \<and> urlsafe_b64decode example_env
        (get_value_from_tuples PUBLIC_KEY_HEADER
           [(''public-key'', Str ''S0E=''), (''auth-token'', Str ''YmFk'')]) = Some ''KA''
   \<and> ''KA'' \<in> get_client_public_keys (state (example_world {''KA''} [(''KA'', 7)]))
   \<and> is_session_request (PullTaskInsRequest (Node 9 False))
   \<and> urlsafe_b64decode example_env
        (get_value_from_tuples AUTH_TOKEN_HEADER
           [(''public-key'', Str ''S0E=''), (''auth-token'', Str ''YmFk'')]) = Some ''bad''
   \<and> bytes_to_public_key example_env ''KA'' = Some (PublicKey ''KA'')
   \<and> \<not> verify_hmac example_env
          (generate_shared_key example_env (server_private_key example_self) (PublicKey ''KA''))
          (SerializeToString example_env (PullTaskInsRequest (Node 9 False))) ''bad''
   \<and> request_node_id (PullTaskInsRequest (Node 9 False)) = Inr 9
   \<and> get_node_id (state (example_world {''KA''} [(''KA'', 7)])) ''KA'' \<noteq> Some 9
   \<and> fst (generic_method_handler example_env example_self (PullTaskInsRequest (Node 9 False))
            [(''public-key'', Str ''S0E=''), (''auth-token'', Str ''YmFk'')]
            (example_world {''KA''} [(''KA'', 7)])) =
       Inl (Abort UNAUTHENTICATED ''Access denied!'')
   \<and> fst (generic_method_handler example_env example_self OtherRequest
            [(''public-key'', Str ''S0E=''), (''auth-token'', Str ''YmFk'')]
            (example_world {''KA''} [(''KA'', 7)])) =
       Inl (Abort UNAUTHENTICATED ''Access denied!'')
   \<and> Unary_unary OtherRequest \<notin>
       set (effects (snd (generic_method_handler example_env example_self OtherRequest
            [(''public-key'', Str ''S0E=''), (''auth-token'', Str ''YmFk'')]
            (example_world {''KA''} [(''KA'', 7)]))))"
proof -
  let ?w = "example_world {''KA''} [(''KA'', 7)]"
  let ?md = "[(''public-key'', Str ''S0E=''), (''auth-token'', Str ''YmFk'')]"
  have a: "urlsafe_b64decode example_env
      (get_value_from_tuples PUBLIC_KEY_HEADER [(''public-key'', Str ''dGFn'')]) = Some ''tag''"
    "''tag'' \<notin> get_client_public_keys (state ?w)"
    by (simp_all add: example_defs get_client_public_keys_def)
  have b: "urlsafe_b64decode example_env (get_value_from_tuples PUBLIC_KEY_HEADER ?md) = Some ''KA''"
    "''KA'' \<in> get_client_public_keys (state ?w)"
    "is_session_request (PullTaskInsRequest (Node 9 False))"
    "urlsafe_b64decode example_env (get_value_from_tuples AUTH_TOKEN_HEADER ?md) = Some ''bad''"
    "bytes_to_public_key example_env ''KA'' = Some (PublicKey ''KA'')"
    "\<not> verify_hmac example_env
          (generate_shared_key example_env (server_private_key example_self) (PublicKey ''KA''))
          (SerializeToString example_env (PullTaskInsRequest (Node 9 False))) ''bad''"
    "request_node_id (PullTaskInsRequest (Node 9 False)) = Inr 9"
    "get_node_id (state ?w) ''KA'' \<noteq> Some 9"
    by (simp_all add: example_defs get_client_public_keys_def get_node_id_def)
  have d: "Unary_unary OtherRequest \<notin>
       set (effects (snd (generic_method_handler example_env example_self OtherRequest ?md ?w)))"
    by (simp add: example_defs gate_defs)
  from rejections_identical
         [of example_env "[(''public-key'', Str ''dGFn'')]" "''tag''" ?w example_self
             "CreateNodeRequest 30"
             example_env ?md "''KA''" ?w "PullTaskInsRequest (Node 9 False)" "''bad''"
             "PublicKey ''KA''" example_self 9
             example_env ?md "''KA''" ?w example_self
             example_env example_self OtherRequest ?md ?w UNAUTHENTICATED "''Access denied!''"]
       a b d
  show ?thesis by simp
qed

section \<open>Properties of the reconciliation loop\<close>

subsection \<open>The module's names\<close>

lemmas name_defs =
  import_names_def module_names_def builtin_names_def lookup_def def_statement_def
  def_start_driver_def def_update_client_manager_def loop_locals_def
  proxy_expression_names_def start_driver_locals_def thread_expression_names_def

lemma def_start_driver_runs: "def_start_driver import_names = Inr module_names"
  by (simp add: name_defs)

lemma def_update_client_manager_raises:
  "def_update_client_manager module_names = Inl (NameError ''List'')"
  by (simp add: name_defs)

lemma exec_module_raises: "exec_module = Inl (NameError ''List'')"
  by (simp add: exec_module_def def_start_driver_runs def_update_client_manager_raises)

lemma cast_unbound: "''cast'' \<notin> set module_names"
  by (simp add: name_defs)

lemma certificates_unbound: "''certificates'' \<notin> set module_names"
  by (simp add: name_defs)

lemma proxy_expression_raises:
  assumes "''DriverClientProxy'' \<in> set globals" and "''cast'' \<notin> set globals"
  shows "first_error (map (lookup globals loop_locals) proxy_expression_names) =
           Some (NameError ''cast'')"
  using assms by (simp add: proxy_expression_names_def lookup_def loop_locals_def builtin_names_def)

lemma thread_expression_raises:
  assumes "''certificates'' \<notin> set globals"
  shows "\<exists>name. first_error (map (lookup globals start_driver_locals) thread_expression_names) =
           Some (NameError name)"
  using assms
  by (simp add: thread_expression_names_def lookup_def start_driver_locals_def builtin_names_def)

subsection \<open>Dictionaries\<close>

lemma keys_delete: "keys (AList.delete k d) = keys d - {k}"
  by (auto simp add: keys_def AList.delete_eq)

lemma map_of_None_keys: "map_of d n = None \<longleftrightarrow> n \<notin> keys d"
  by (simp add: keys_def map_of_eq_None_iff)

lemma finite_keys: "finite (keys d)"
  by (simp add: keys_def)

lemma list_all_delete: "list_all P d \<Longrightarrow> list_all P (AList.delete k d)"
  by (simp add: AList.delete_eq list_all_iff)

lemma well_formed_lookup:
  "well_formed s \<Longrightarrow> map_of (registered_nodes s) n = Some p \<Longrightarrow> proxy_node_id p = n"
  by (auto simp add: well_formed_def list_all_iff dest: map_of_SomeD)

subsection \<open>The two inner loops\<close>

lemma unregister_dead_ok:
  "distinct ns \<Longrightarrow> set ns \<subseteq> keys (registered_nodes s) \<Longrightarrow> well_formed s \<Longrightarrow>
   fst (unregister_dead ns s) = None
   \<and> keys (registered_nodes (snd (unregister_dead ns s))) = keys (registered_nodes s) - set ns
   \<and> keys (client_manager (snd (unregister_dead ns s))) = keys (client_manager s) - set ns
   \<and> calls (snd (unregister_dead ns s)) = calls s @ map Unregister ns
   \<and> well_formed (snd (unregister_dead ns s))"
proof (induction ns arbitrary: s)
  case Nil
  then show ?case by simp
next
  case (Cons n ns)
  from Cons.prems obtain p where p: "map_of (registered_nodes s) n = Some p"
    by (cases "map_of (registered_nodes s) n") (auto simp add: map_of_None_keys)
  with Cons.prems have pn: "proxy_node_id p = n"
    by (simp add: well_formed_lookup)
  let ?s = "s\<lparr>registered_nodes := AList.delete n (registered_nodes s),
               client_manager := unregister p (client_manager s),
               calls := calls s @ [Unregister n]\<rparr>"
  have "distinct ns" "set ns \<subseteq> keys (registered_nodes ?s)" "well_formed ?s"
    using Cons.prems by (auto simp add: well_formed_def list_all_delete keys_delete)
  from Cons.IH [OF this] p pn show ?case
    by (auto simp add: unregister_def keys_delete)
qed

lemma register_new_raises:
  assumes "''DriverClientProxy'' \<in> set globals" and "''cast'' \<notin> set globals" and "ns \<noteq> []"
  shows "register_new globals driver ns s = (Some (NameError ''cast''), s)"
proof (cases ns)
  case Nil
  with assms(3) show ?thesis by simp
next
  case (Cons n ms)
  with proxy_expression_raises [OF assms(1,2)] show ?thesis by simp
qed

subsection \<open>One cycle\<close>

lemma cycle_new_node:
  fixes order :: "int set \<Rightarrow> int list" and nodes :: "Node list" and s :: loop_state
    and driver :: Driver
  assumes io: "iteration_order order" and wf: "well_formed s"
      and g: "''DriverClientProxy'' \<in> set globals" "''cast'' \<notin> set globals"
      and new: "node_id ` set nodes - keys (registered_nodes s) \<noteq> {}"
  defines "live \<equiv> node_id ` set nodes"
  defines "known \<equiv> keys (registered_nodes s)"
  defines "s' \<equiv> snd (cycle globals order driver nodes s)"
  shows "fst (cycle globals order driver nodes s) = Some (NameError ''cast'')
    \<and> calls s' = calls s @ [Get_nodes] @ map Unregister (order (known - live))
    \<and> keys (registered_nodes s') = known \<inter> live
    \<and> keys (client_manager s') = keys (client_manager s) - (known - live)"
proof -
  let ?dead = "known - live"
  let ?s1 = "s\<lparr>calls := calls s @ [Get_nodes]\<rparr>"
  define s2 where "s2 = snd (unregister_dead (order ?dead) ?s1)"
  have "finite ?dead" by (simp add: known_def finite_keys)
  with io have ord: "set (order ?dead) = ?dead" "distinct (order ?dead)"
    by (simp_all add: iteration_order_def)
  have wf1: "well_formed ?s1" using wf by (simp add: well_formed_def)
  have sub: "set (order ?dead) \<subseteq> keys (registered_nodes ?s1)"
    using ord by (auto simp add: known_def)
  from unregister_dead_ok [OF ord(2) sub wf1]
  have u: "fst (unregister_dead (order ?dead) ?s1) = None"
    "keys (registered_nodes s2) = known - set (order ?dead)"
    "keys (client_manager s2) = keys (client_manager s) - set (order ?dead)"
    "calls s2 = calls s @ [Get_nodes] @ map Unregister (order ?dead)"
    by (simp_all add: s2_def known_def)
  from u(1) have e: "unregister_dead (order ?dead) ?s1 = (None, s2)"
    by (simp add: s2_def prod_eq_iff)
  have "finite (live - known)" by (simp add: live_def)
  with io have "set (order (live - known)) = live - known"
    by (simp add: iteration_order_def)
  with new have "order (live - known) \<noteq> []"
    by (auto simp add: live_def known_def)
  from register_new_raises [OF g this]
  have r: "register_new globals driver (order (live - known)) s2 = (Some (NameError ''cast''), s2)" .
  from e r have c: "cycle globals order driver nodes s = (Some (NameError ''cast''), s2)"
    by (simp add: cycle_def Let_def live_def known_def)
  from c u ord show ?thesis
    by (auto simp add: s'_def)
qed

lemma iteration_order_sorted: "iteration_order sorted_list_of_set"
  by (simp add: iteration_order_def)

subsection \<open>The claims about the loop\<close>

text \<open>
  C5 does not hold of the code. Whenever a live node id is not yet in the loop's
  dictionary, the cycle unregisters the dead ids and then, building the proxy for the
  first new id, looks up the name \<open>cast\<close>, which no import binds: the cycle ends in
  \<open>NameError\<close>. \<open>client_manager.register\<close> has not been called, no new id is in the
  dictionary, and the dictionary's keys are not the live set. So it is in the claim's
  own run: the first poll \<open>{1, 2}\<close> ends the loop with nothing registered. This holds
  for every set of global names that binds \<open>DriverClientProxy\<close> and not \<open>cast\<close>, as the
  module's does. As the module stands the function is not even defined: its \<open>def\<close>
  statement raises \<open>NameError\<close> on the annotation \<open>List[bool]\<close>, and so does the import
  of the module.
\<close>

theorem new_node_raises_name_error:
  fixes order :: "int set \<Rightarrow> int list" and nodes :: "Node list" and s :: loop_state
    and driver :: Driver
  assumes io: "iteration_order order" and wf: "well_formed s"
      and g: "''DriverClientProxy'' \<in> set globals" "''cast'' \<notin> set globals"
      and new: "node_id ` set nodes - keys (registered_nodes s) \<noteq> {}"
  shows "fst (cycle globals order driver nodes s) = Some (NameError ''cast'')
    \<and> calls (snd (cycle globals order driver nodes s)) =
        calls s @ [Get_nodes]
          @ map Unregister (order (keys (registered_nodes s) - node_id ` set nodes))
    \<and> keys (registered_nodes (snd (cycle globals order driver nodes s))) =
        keys (registered_nodes s) \<inter> node_id ` set nodes
    \<and> keys (registered_nodes (snd (cycle globals order driver nodes s))) \<noteq> node_id ` set nodes
    \<and> update_client_manager_body globals order driver
         [(False, Inr [Node 1 False, Node 2 False]), (False, Inr [Node 2 False, Node 3 False]),
          (False, Inr [Node 3 False]), (True, got)] (initial_loop_state []) =
        (Raised (NameError ''cast''),
         \<lparr>registered_nodes = [], client_manager = [], calls = [Get_nodes]\<rparr>)
    \<and> ''DriverClientProxy'' \<in> set module_names \<and> ''cast'' \<notin> set module_names
    \<and> update_client_manager module_names order driver readings s = (Raised (NameError ''List''), s)
    \<and> exec_module = Inl (NameError ''List'')"
proof -
  note c = cycle_new_node [OF io wf g new, of driver]
  from c new have ne: "keys (registered_nodes (snd (cycle globals order driver nodes s))) \<noteq>
      node_id ` set nodes"
    by auto
  from io have "set (order {}) = {}" by (simp add: iteration_order_def)
  then have o0: "order {} = []" by simp
  from io have "set (order {1, 2}) = {1, 2}" by (simp add: iteration_order_def)
  then have "order {1, 2} \<noteq> []" by auto
  from register_new_raises [OF g this]
  have "cycle globals order driver [Node 1 False, Node 2 False] (initial_loop_state []) =
      (Some (NameError ''cast''),
       \<lparr>registered_nodes = [], client_manager = [], calls = [Get_nodes]\<rparr>)"
    by (simp add: cycle_def initial_loop_state_def keys_def o0)
  then have ex: "update_client_manager_body globals order driver
         [(False, Inr [Node 1 False, Node 2 False]), (False, Inr [Node 2 False, Node 3 False]),
          (False, Inr [Node 3 False]), (True, got)] (initial_loop_state []) =
        (Raised (NameError ''cast''),
         \<lparr>registered_nodes = [], client_manager = [], calls = [Get_nodes]\<rparr>)"
    by simp
  have m: "''DriverClientProxy'' \<in> set module_names" "''cast'' \<notin> set module_names"
    by (simp_all add: name_defs)
  have d: "update_client_manager module_names order driver readings s =
      (Raised (NameError ''List''), s)"
    by (simp add: update_client_manager_def def_update_client_manager_raises)
  from c ne ex m d exec_module_raises show ?thesis by blast
qed

theorem new_node_raises_name_error_witness:
  "iteration_order sorted_list_of_set
   \<and> well_formed (initial_loop_state [])
   \<and> ''DriverClientProxy'' \<in> set module_names \<and> ''cast'' \<notin> set module_names
   \<and> node_id ` set [Node 1 False, Node 2 False] - keys (registered_nodes (initial_loop_state []))
       \<noteq> {}
   \<and> cycle module_names sorted_list_of_set example_driver [Node 1 False, Node 2 False]
        (initial_loop_state []) =
      (Some (NameError ''cast''),
       \<lparr>registered_nodes = [], client_manager = [], calls = [Get_nodes]\<rparr>)
   \<and> keys (registered_nodes
        (snd (cycle module_names sorted_list_of_set example_driver [Node 1 False, Node 2 False]
               (initial_loop_state [])))) \<noteq> node_id ` set [Node 1 False, Node 2 False]
   \<and> update_client_manager module_names sorted_list_of_set example_driver
        [(False, Inr [Node 1 False, Node 2 False])] (initial_loop_state []) =
      (Raised (NameError ''List''), initial_loop_state [])"
proof -
  have a: "iteration_order sorted_list_of_set"
    by (rule iteration_order_sorted)
  have b: "well_formed (initial_loop_state [])"
    by (simp add: well_formed_def initial_loop_state_def)
  have c: "''DriverClientProxy'' \<in> set module_names" and d: "''cast'' \<notin> set module_names"
    by (simp_all add: name_defs)
  have e: "node_id ` set [Node 1 False, Node 2 False]
      - keys (registered_nodes (initial_loop_state [])) \<noteq> {}"
    by (simp add: initial_loop_state_def keys_def)
  have f: "cycle module_names sorted_list_of_set example_driver [Node 1 False, Node 2 False]
        (initial_loop_state []) =
      (Some (NameError ''cast''),
       \<lparr>registered_nodes = [], client_manager = [], calls = [Get_nodes]\<rparr>)"
    by code_simp
  note T = new_node_raises_name_error
    [OF a b c d e, of example_driver "Inr []" "[(False, Inr [Node 1 False, Node 2 False])]"]
  from T have "keys (registered_nodes
        (snd (cycle module_names sorted_list_of_set example_driver [Node 1 False, Node 2 False]
               (initial_loop_state [])))) \<noteq> node_id ` set [Node 1 False, Node 2 False]
     \<and> update_client_manager module_names sorted_list_of_set example_driver
        [(False, Inr [Node 1 False, Node 2 False])] (initial_loop_state []) =
      (Raised (NameError ''List''), initial_loop_state [])"
    by blast
  with a b c d e f show ?thesis by blast
qed



text \<open>The flag is read at the top of the loop: read as set, the body returns at once.\<close>

lemma flag_read_at_top:
  "update_client_manager_body globals order driver ((True, got) # readings) s = (Returned, s)"
  by simp

subsection \<open>\<open>start_driver\<close>\<close>

lemma start_driver_no_thread:
  assumes "''certificates'' \<notin> set globals"
  shows "(\<exists>err. fst (start_driver globals env a c) = Inl err)
       \<and> Thread_start \<notin> set (snd (start_driver globals env a c))
       \<and> Set_exit_flag \<notin> set (snd (start_driver globals env a c))
       \<and> Thread_join \<notin> set (snd (start_driver globals env a c))"
proof -
  from thread_expression_raises [OF assms] obtain name where
    n: "first_error (map (lookup globals start_driver_locals) thread_expression_names) =
          Some (NameError name)"
    by blast
  show ?thesis
    by (auto simp add: start_driver_def Let_def n
        split: option.splits prod.splits sum.splits mdval.splits)
qed

text \<open>
  C7 does not hold of the code. \<open>start_driver\<close> never starts the thread, never stores
  into the flag and never joins. Building the arguments of \<open>threading.Thread\<close> it looks
  up the name \<open>certificates\<close>, which is neither a local name (the parameter is
  \<open>root_certificates\<close>) nor a global one: whatever the global names, as long as they do
  not bind \<open>certificates\<close>, every call ends in an exception before \<open>thread.start()\<close>. With
  \<open>update_client_manager\<close> defined the exception is the \<open>NameError\<close> of \<open>certificates\<close>;
  with the names the module binds it is the \<open>NameError\<close> of \<open>update_client_manager\<close>
  itself, whose \<open>def\<close> statement raises on \<open>List[bool]\<close>.
\<close>

theorem start_driver_raises_before_thread_start:
  "(''certificates'' \<notin> set ga \<longrightarrow>
      (\<exists>err. fst (start_driver ga ea aa ca) = Inl err)
      \<and> Thread_start \<notin> set (snd (start_driver ga ea aa ca))
      \<and> Set_exit_flag \<notin> set (snd (start_driver ga ea aa ca))
      \<and> Thread_join \<notin> set (snd (start_driver ga ea aa ca)))
   \<and> (''certificates'' \<notin> set gb \<and> ''threading'' \<in> set gb \<and> ''update_client_manager'' \<in> set gb
       \<and> ''Driver'' \<in> set gb
       \<and> parse_address eb ab = Some (hostb, portb, v6b)
       \<and> connect eb
             (if v6b then ''['' @ hostb @ '']:'' @ portb else hostb @ '':'' @ portb)
             None = None \<longrightarrow>
      start_driver gb eb ab None =
        (Inl (NameError ''certificates''),
         [Event_start_driver_enter,
          Connect (if v6b then ''['' @ hostb @ '']:'' @ portb else hostb @ '':'' @ portb),
          Init_defaults, Log_starting]))
   \<and> (parse_address ec ac = Some (hostc, portc, v6c)
       \<and> connect ec
             (if v6c then ''['' @ hostc @ '']:'' @ portc else hostc @ '':'' @ portc)
             None = None \<longrightarrow>
      start_driver module_names ec ac None =
        (Inl (NameError ''update_client_manager''),
         [Event_start_driver_enter,
          Connect (if v6c then ''['' @ hostc @ '']:'' @ portc else hostc @ '':'' @ portc),
          Init_defaults, Log_starting]))
   \<and> ''certificates'' \<notin> set module_names
   \<and> ''certificates'' \<notin> set (module_names @ [''update_client_manager''])
   \<and> def_update_client_manager module_names = Inl (NameError ''List'')
   \<and> exec_module = Inl (NameError ''List'')"
proof -
  have a: "''certificates'' \<notin> set ga \<longrightarrow>
      (\<exists>err. fst (start_driver ga ea aa ca) = Inl err)
      \<and> Thread_start \<notin> set (snd (start_driver ga ea aa ca))
      \<and> Set_exit_flag \<notin> set (snd (start_driver ga ea aa ca))
      \<and> Thread_join \<notin> set (snd (start_driver ga ea aa ca))"
    using start_driver_no_thread [of ga ea aa ca] by blast
  have b: "''certificates'' \<notin> set gb \<and> ''threading'' \<in> set gb \<and> ''update_client_manager'' \<in> set gb
       \<and> ''Driver'' \<in> set gb
       \<and> parse_address eb ab = Some (hostb, portb, v6b)
       \<and> connect eb
             (if v6b then ''['' @ hostb @ '']:'' @ portb else hostb @ '':'' @ portb)
             None = None \<longrightarrow>
      start_driver gb eb ab None =
        (Inl (NameError ''certificates''),
         [Event_start_driver_enter,
          Connect (if v6b then ''['' @ hostb @ '']:'' @ portb else hostb @ '':'' @ portb),
          Init_defaults, Log_starting])"
    by (simp add: start_driver_def thread_expression_names_def lookup_def
        start_driver_locals_def builtin_names_def)
  have c: "parse_address ec ac = Some (hostc, portc, v6c)
       \<and> connect ec
             (if v6c then ''['' @ hostc @ '']:'' @ portc else hostc @ '':'' @ portc)
             None = None \<longrightarrow>
      start_driver module_names ec ac None =
        (Inl (NameError ''update_client_manager''),
         [Event_start_driver_enter,
          Connect (if v6c then ''['' @ hostc @ '']:'' @ portc else hostc @ '':'' @ portc),
          Init_defaults, Log_starting])"
    by (simp add: start_driver_def name_defs)
  have d: "''certificates'' \<notin> set module_names"
    "''certificates'' \<notin> set (module_names @ [''update_client_manager''])"
    by (simp_all add: name_defs)
  from a b c d def_update_client_manager_raises exec_module_raises show ?thesis by blast
qed

theorem start_driver_raises_before_thread_start_witness:
  "''certificates'' \<notin> set (module_names @ [''update_client_manager''])
   \<and> ''threading'' \<in> set (module_names @ [''update_client_manager''])
   \<and> ''update_client_manager'' \<in> set (module_names @ [''update_client_manager''])
   \<and> ''Driver'' \<in> set (module_names @ [''update_client_manager''])
   \<and> parse_address example_driver_env ''[::]:9091'' = Some (''::'', ''9091'', True)
   \<and> connect example_driver_env (''['' @ ''::'' @ '']:'' @ ''9091'') None = None
   \<and> start_driver (module_names @ [''update_client_manager'']) example_driver_env ''[::]:9091''
        None =
      (Inl (NameError ''certificates''),
       [Event_start_driver_enter, Connect ''[::]:9091'', Init_defaults, Log_starting])
   \<and> start_driver module_names example_driver_env ''[::]:9091'' None =
      (Inl (NameError ''update_client_manager''),
       [Event_start_driver_enter, Connect ''[::]:9091'', Init_defaults, Log_starting])
   \<and> Thread_start \<notin> set (snd (start_driver (module_names @ [''update_client_manager''])
                                example_driver_env ''[::]:9091'' None))
   \<and> Set_exit_flag \<notin> set (snd (start_driver (module_names @ [''update_client_manager''])
                                example_driver_env ''[::]:9091'' None))
   \<and> Thread_join \<notin> set (snd (start_driver (module_names @ [''update_client_manager''])
                                example_driver_env ''[::]:9091'' None))
   \<and> run_fl example_driver_env = Inr (History [0.5])"
proof -
  let ?g = "module_names @ [''update_client_manager'']"
  have h: "''certificates'' \<notin> set ?g" "''threading'' \<in> set ?g"
    "''update_client_manager'' \<in> set ?g" "''Driver'' \<in> set ?g"
    by (simp_all add: name_defs)
  have p: "parse_address example_driver_env ''[::]:9091'' = Some (''::'', ''9091'', True)"
    "connect example_driver_env (''['' @ ''::'' @ '']:'' @ ''9091'') None = None"
    "run_fl example_driver_env = Inr (History [0.5])"
    by (simp_all add: example_driver_env_def)
  note T = start_driver_raises_before_thread_start
    [where ga = ?g and ea = example_driver_env and aa = "''[::]:9091''" and ca = None
       and gb = ?g and eb = example_driver_env and ab = "''[::]:9091''"
       and hostb = "''::''" and portb = "''9091''" and v6b = True
       and ec = example_driver_env and ac = "''[::]:9091''"
       and hostc = "''::''" and portc = "''9091''" and v6c = True]
  from T [THEN conjunct1] h(1)
  have a: "Thread_start \<notin> set (snd (start_driver ?g example_driver_env ''[::]:9091'' None))
     \<and> Set_exit_flag \<notin> set (snd (start_driver ?g example_driver_env ''[::]:9091'' None))
     \<and> Thread_join \<notin> set (snd (start_driver ?g example_driver_env ''[::]:9091'' None))"
    by blast
  from T [THEN conjunct2, THEN conjunct1] h p(1,2)
  have b: "start_driver ?g example_driver_env ''[::]:9091'' None =
      (Inl (NameError ''certificates''),
       [Event_start_driver_enter, Connect ''[::]:9091'', Init_defaults, Log_starting])"
    by simp
  from T [THEN conjunct2, THEN conjunct2, THEN conjunct1] p(1,2)
  have c: "start_driver module_names example_driver_env ''[::]:9091'' None =
      (Inl (NameError ''update_client_manager''),
       [Event_start_driver_enter, Connect ''[::]:9091'', Init_defaults, Log_starting])"
    by simp
  from h p a b c show ?thesis by blast
qed

end
